theory Spec2Isabelle
  imports Main "HOL-Library.Sublist"
begin

section \<open>Handler records and causes\<close>

text \<open>
  Modelled from the spec: the handler and cause classes of \<^verbatim>\<open>kopf.structs.handlers\<close>
  and \<^verbatim>\<open>kopf.reactor.causation\<close>, with their enumerations of reasons and activities,
  are declared outside the files under study; the datatypes and records below carry the
  fields that \<^verbatim>\<open>kopf/reactor/registries.py\<close> reads, with the types the data model of
  the specification gives them. Of the enumerations only equality is used.

  A callback is represented by its object identity (what \<^verbatim>\<open>id(handler.fn)\<close> returns),
  a handler id by a string. The execution-policy fields (errors, timeout, retries,
  backoff) are never read by the registries and are left out.
\<close>

datatype Reason = CREATE | UPDATE | DELETE

datatype Activity = STARTUP | CLEANUP | AUTHENTICATION | PROBE

text \<open>
  One entry of a diff: operation, field path, old value, new value. A field path is a
  tuple of path segments. Old and new values are opaque to the registries.
\<close>

type_synonym FieldPath = "string list"

type_synonym DiffItem = "string \<times> FieldPath \<times> string \<times> string"

text \<open>
  The body of a resource, as far as the filters look into it:
  \<^verbatim>\<open>body.get('metadata', {}).get('labels', {})\<close> and the same for annotations. Either
  level may be missing.
\<close>

record Metadata =
  meta_labels :: "(string \<rightharpoonup> string) option"
  meta_annotations :: "(string \<rightharpoonup> string) option"

record Cause =
  body_metadata :: "Metadata option"
  cause_reason :: Reason
  cause_diff :: "DiffItem list option"
  cause_initial :: bool
  cause_deleted :: bool

text \<open>
  A value of a label or annotation filter: a literal string, one of the two tokens, or a
  predicate callable. A predicate receives the observed value (or nothing) and the
  keyword context built from the cause; the context is represented by the cause itself.
\<close>

datatype MetaFilter =
    Literal string
  | PRESENT
  | ABSENT
  | Predicate "string option \<Rightarrow> Cause \<Rightarrow> bool"

record BaseHandler =
  handler_id :: string
  fn :: nat

record ActivityHandler = BaseHandler +
  activity :: "Activity option"
  fallback :: bool

text \<open>
  The three resource handler classes share one record; \<open>handler_class\<close> is what
  \<^verbatim>\<open>isinstance\<close> tests. The fields after \<open>when_fn\<close> belong to changing handlers
  (and \<open>requires_finalizer\<close> to spawning handlers as well); the code reads them only
  behind the corresponding class.
\<close>

datatype HandlerClass = ResourceWatchingHandler | ResourceSpawningHandler | ResourceChangingHandler

record ResourceHandler = BaseHandler +
  handler_class :: HandlerClass
  labels :: "(string \<times> MetaFilter) list option"
  annotations :: "(string \<times> MetaFilter) list option"
  when_fn :: "(Cause \<Rightarrow> bool) option"
  reason :: "Reason option"
  field :: "FieldPath option"
  initial :: bool
  deleted :: bool
  requires_finalizer :: bool

section \<open>Deduplication\<close>

text \<open>
  \<^verbatim>\<open>_deduplicated\<close>: the generator keeps the set of callback identities seen so far and
  yields a handler only when its callback is new.
\<close>

fun deduplicated_from :: "nat set \<Rightarrow> ('a BaseHandler_scheme) list \<Rightarrow> ('a BaseHandler_scheme) list" where
  "deduplicated_from seen_ids [] = []"
| "deduplicated_from seen_ids (handler # handlers) =
     (if fn handler \<in> seen_ids then deduplicated_from seen_ids handlers
      else handler # deduplicated_from (insert (fn handler) seen_ids) handlers)"

definition deduplicated :: "('a BaseHandler_scheme) list \<Rightarrow> ('a BaseHandler_scheme) list" where
  "deduplicated handlers = deduplicated_from {} handlers"

section \<open>Filter predicates\<close>

text \<open>
  \<^verbatim>\<open>_matches_field\<close>. The slices \<^verbatim>\<open>changed_field[:len(handler.field)]\<close> and
  \<^verbatim>\<open>handler.field[:len(changed_field)]\<close> are \<open>take\<close>; \<^verbatim>\<open>not handler.field\<close> holds
  for \<^verbatim>\<open>None\<close> and for the empty tuple.
\<close>

definition matches_field :: "ResourceHandler \<Rightarrow> FieldPath set \<Rightarrow> bool \<Rightarrow> bool" where
  "matches_field handler changed_fields ignore_fields =
     (ignore_fields \<or>
      handler_class handler \<noteq> ResourceChangingHandler \<or>
      (case field handler of
         None \<Rightarrow> True
       | Some f \<Rightarrow>
           f = [] \<or>
           (\<exists>changed_field \<in> changed_fields.
              take (length f) changed_field = f \<or>
              changed_field = take (length changed_field) f)))"

text \<open>
  \<^verbatim>\<open>_matches_metadata\<close>: the loop over the items of the pattern, with its early returns.
  A token is not callable and never equals a string, so \<open>ABSENT\<close> on a present key and
  \<open>PRESENT\<close> on a missing key both fall through to a \<^verbatim>\<open>return False\<close>.
\<close>

fun matches_metadata :: "(string \<times> MetaFilter) list \<Rightarrow> (string \<rightharpoonup> string) \<Rightarrow> Cause \<Rightarrow> bool" where
  "matches_metadata [] content cause = True"
| "matches_metadata ((key, ABSENT) # pattern) content cause =
     (if content key = None then matches_metadata pattern content cause else False)"
| "matches_metadata ((key, PRESENT) # pattern) content cause =
     (if content key \<noteq> None then matches_metadata pattern content cause else False)"
| "matches_metadata ((key, Predicate p) # pattern) content cause =
     (if p (content key) cause then matches_metadata pattern content cause else False)"
| "matches_metadata ((key, Literal v) # pattern) content cause =
     (if content key = None then False
      else if Some v \<noteq> content key then False
      else matches_metadata pattern content cause)"

definition body_labels :: "Cause \<Rightarrow> (string \<rightharpoonup> string)" where
  "body_labels cause =
     (case body_metadata cause of None \<Rightarrow> Map.empty
      | Some m \<Rightarrow> (case meta_labels m of None \<Rightarrow> Map.empty | Some ls \<Rightarrow> ls))"

definition body_annotations :: "Cause \<Rightarrow> (string \<rightharpoonup> string)" where
  "body_annotations cause =
     (case body_metadata cause of None \<Rightarrow> Map.empty
      | Some m \<Rightarrow> (case meta_annotations m of None \<Rightarrow> Map.empty | Some ls \<Rightarrow> ls))"

definition matches_labels :: "ResourceHandler \<Rightarrow> Cause \<Rightarrow> bool" where
  "matches_labels handler cause =
     (case labels handler of None \<Rightarrow> True
      | Some pattern \<Rightarrow> pattern = [] \<or> matches_metadata pattern (body_labels cause) cause)"

definition matches_annotations :: "ResourceHandler \<Rightarrow> Cause \<Rightarrow> bool" where
  "matches_annotations handler cause =
     (case annotations handler of None \<Rightarrow> True
      | Some pattern \<Rightarrow> pattern = [] \<or> matches_metadata pattern (body_annotations cause) cause)"

definition matches_filter_callback :: "ResourceHandler \<Rightarrow> Cause \<Rightarrow> bool" where
  "matches_filter_callback handler cause =
     (case when_fn handler of None \<Rightarrow> True | Some w \<Rightarrow> w cause)"

text \<open>
  \<^verbatim>\<open>match\<close>: all four checks. The defaults of the source are an empty set of changed
  fields and \<^verbatim>\<open>ignore_fields=False\<close>; callers that rely on them pass \<open>{}\<close> and
  \<open>False\<close> here.
\<close>

definition match :: "ResourceHandler \<Rightarrow> Cause \<Rightarrow> FieldPath set \<Rightarrow> bool \<Rightarrow> bool" where
  "match handler cause changed_fields ignore_fields =
     (matches_field handler changed_fields ignore_fields \<and>
      matches_labels handler cause \<and>
      matches_annotations handler cause \<and>
      matches_filter_callback handler cause)"

section \<open>Registries\<close>

text \<open>
  A registry is the list \<^verbatim>\<open>_handlers\<close> in registration order; \<^verbatim>\<open>append\<close> adds at
  the end. Each generator \<^verbatim>\<open>iter_handlers\<close> becomes the list of what it yields, and
  \<^verbatim>\<open>get_handlers\<close> is \<^verbatim>\<open>list(_deduplicated(iter_handlers(...)))\<close>.
\<close>

definition registry_append :: "'h list \<Rightarrow> 'h \<Rightarrow> 'h list" where
  "registry_append handlers handler = handlers @ [handler]"

subsection \<open>ActivityRegistry\<close>

text \<open>
  In Python \<^verbatim>\<open>a or b and c\<close> is \<^verbatim>\<open>a or (b and c)\<close>; the two conditions are
  written with that grouping. The flag \<^verbatim>\<open>found\<close> is set exactly when the first loop
  yields something.
\<close>

definition activity_iter_handlers :: "ActivityHandler list \<Rightarrow> Activity \<Rightarrow> ActivityHandler list" where
  "activity_iter_handlers handlers act =
     (let regular = filter (\<lambda>handler.
              activity handler = None \<or> (activity handler = Some act \<and> \<not> fallback handler)) handlers;
          found = (regular \<noteq> [])
      in if \<not> found
         then regular @ filter (\<lambda>handler.
              activity handler = None \<or> (activity handler = Some act \<and> fallback handler)) handlers
         else regular)"

definition activity_get_handlers :: "ActivityHandler list \<Rightarrow> Activity \<Rightarrow> ActivityHandler list" where
  "activity_get_handlers handlers act = deduplicated (activity_iter_handlers handlers act)"

subsection \<open>ResourceWatchingRegistry\<close>

definition watching_iter_handlers ::
  "ResourceHandler list \<Rightarrow> Cause \<Rightarrow> string set \<Rightarrow> ResourceHandler list" where
  "watching_iter_handlers handlers cause excluded =
     filter (\<lambda>handler. handler_id handler \<notin> excluded \<and> match handler cause {} True) handlers"

definition watching_get_handlers ::
  "ResourceHandler list \<Rightarrow> Cause \<Rightarrow> string set \<Rightarrow> ResourceHandler list" where
  "watching_get_handlers handlers cause excluded =
     deduplicated (watching_iter_handlers handlers cause excluded)"

subsection \<open>ResourceSpawningRegistry\<close>

definition spawning_iter_handlers ::
  "ResourceHandler list \<Rightarrow> Cause \<Rightarrow> string set \<Rightarrow> ResourceHandler list" where
  "spawning_iter_handlers handlers cause excluded =
     filter (\<lambda>handler. handler_id handler \<notin> excluded \<and> match handler cause {} False) handlers"

definition spawning_get_handlers ::
  "ResourceHandler list \<Rightarrow> Cause \<Rightarrow> string set \<Rightarrow> ResourceHandler list" where
  "spawning_get_handlers handlers cause excluded =
     deduplicated (spawning_iter_handlers handlers cause excluded)"


subsection \<open>ResourceChangingRegistry\<close>

definition changed_fields_of :: "Cause \<Rightarrow> FieldPath set" where
  "changed_fields_of cause =
     set (map (\<lambda>(_, fld, _, _). fld) (case cause_diff cause of None \<Rightarrow> [] | Some d \<Rightarrow> d))"

text \<open>The body of the loop of \<^verbatim>\<open>iter_handlers\<close>: whether a handler is yielded.\<close>

definition changing_yields :: "ResourceHandler \<Rightarrow> Cause \<Rightarrow> string set \<Rightarrow> FieldPath set \<Rightarrow> bool" where
  "changing_yields handler cause excluded changed_fields =
     (if handler_id handler \<notin> excluded then
        (if reason handler = None \<or> reason handler = Some (cause_reason cause) then
           (if initial handler \<and> \<not> cause_initial cause then False
            else if initial handler \<and> cause_deleted cause \<and> \<not> deleted handler then False
            else match handler cause changed_fields False)
         else False)
      else False)"

definition changing_iter_handlers ::
  "ResourceHandler list \<Rightarrow> Cause \<Rightarrow> string set \<Rightarrow> ResourceHandler list" where
  "changing_iter_handlers handlers cause excluded =
     (let changed_fields = changed_fields_of cause
      in filter (\<lambda>handler. changing_yields handler cause excluded changed_fields) handlers)"

definition changing_get_handlers ::
  "ResourceHandler list \<Rightarrow> Cause \<Rightarrow> string set \<Rightarrow> ResourceHandler list" where
  "changing_get_handlers handlers cause excluded =
     deduplicated (changing_iter_handlers handlers cause excluded)"

fun changing_requires_finalizer :: "ResourceHandler list \<Rightarrow> Cause \<Rightarrow> string set \<Rightarrow> bool" where
  "changing_requires_finalizer [] cause excluded = False"
| "changing_requires_finalizer (handler # handlers) cause excluded =
     (if handler_id handler \<notin> excluded then
        (if requires_finalizer handler \<and> match handler cause {} False then True
         else changing_requires_finalizer handlers cause excluded)
      else changing_requires_finalizer handlers cause excluded)"

section \<open>Identifier derivation\<close>

text \<open>
  The kinds of value \<^verbatim>\<open>get_callable_id\<close> tells apart, in the order it tests them:
  \<^verbatim>\<open>None\<close>; a \<^verbatim>\<open>functools.partial\<close> around \<^verbatim>\<open>func\<close>; anything else with a
  \<^verbatim>\<open>__wrapped__\<close> attribute; a function named \<^verbatim>\<open><lambda>\<close>, with the file name and
  first line of its code object; a function or bound method, with its qualified name;
  any other object.
\<close>

datatype Callable =
    NoneValue
  | Partial Callable
  | Wrapped Callable
  | Lambda string nat
  | Function string
  | Method string
  | OtherObject

datatype Error = ValueError string

text \<open>The decimal digits of a line number, as \<^verbatim>\<open>str\<close> formats it.\<close>

definition digit_char :: "nat \<Rightarrow> char" where
  "digit_char d = ''0123456789'' ! d"

fun str_of_nat :: "nat \<Rightarrow> string" where
  "str_of_nat n = (if n < 10 then [digit_char n] else str_of_nat (n div 10) @ [digit_char (n mod 10)])"

declare str_of_nat.simps [simp del]

fun get_callable_id :: "Callable \<Rightarrow> Error + string" where
  "get_callable_id NoneValue = Inl (ValueError ''Cannot build a persistent id of None.'')"
| "get_callable_id (Partial func) = get_callable_id func"
| "get_callable_id (Wrapped wrapped) = get_callable_id wrapped"
| "get_callable_id (Lambda path line) = Inr (''lambda:'' @ path @ '':'' @ str_of_nat line)"
| "get_callable_id (Function qualname) = Inr qualname"
| "get_callable_id (Method qualname) = Inr qualname"
| "get_callable_id OtherObject = Inl (ValueError ''Cannot get id of the object.'')"

text \<open>
  \<^verbatim>\<open>generate_id\<close>. The tests \<^verbatim>\<open>not suffix\<close> and \<^verbatim>\<open>not prefix\<close> hold for
  \<^verbatim>\<open>None\<close> and for the empty string.
\<close>

definition generate_id ::
  "Callable \<Rightarrow> string option \<Rightarrow> string option \<Rightarrow> string option \<Rightarrow> Error + string" where
  "generate_id fn_value explicit_id id_prefix id_suffix =
     (case (case explicit_id of Some i \<Rightarrow> Inr i | None \<Rightarrow> get_callable_id fn_value) of
        Inl e \<Rightarrow> Inl e
      | Inr real_id \<Rightarrow>
          (let real_id1 = (case id_suffix of
                             None \<Rightarrow> real_id
                           | Some sfx \<Rightarrow> if sfx = [] then real_id else real_id @ ''/'' @ sfx);
               real_id2 = (case id_prefix of
                             None \<Rightarrow> real_id1
                           | Some pfx \<Rightarrow> if pfx = [] then real_id1 else pfx @ ''/'' @ real_id1)
           in Inr real_id2))"

text \<open>
  The derivation in the words of the specification: wrapping layers are removed down to
  the innermost callable, and an identity can be derived when that is a function, a
  method or a lambda.
\<close>

fun innermost :: "Callable \<Rightarrow> Callable" where
  "innermost (Partial func) = innermost func"
| "innermost (Wrapped wrapped) = innermost wrapped"
| "innermost c = c"

fun is_named_or_lambda :: "Callable \<Rightarrow> bool" where
  "is_named_or_lambda (Lambda path line) = True"
| "is_named_or_lambda (Function qualname) = True"
| "is_named_or_lambda (Method qualname) = True"
| "is_named_or_lambda c = False"

definition derivable :: "Callable \<Rightarrow> bool" where
  "derivable c = is_named_or_lambda (innermost c)"




section \<open>Event posting\<close>












section \<open>Example registries and environments\<close>

text \<open>
  A function registered for creation and, stacked, for resuming (the case the docstring
  of \<^verbatim>\<open>_deduplicated\<close> describes), and another function under the same handler id.
\<close>

definition plain_handler :: "string \<Rightarrow> nat \<Rightarrow> ResourceHandler" where
  "plain_handler i f =
     \<lparr>handler_id = i, fn = f, handler_class = ResourceChangingHandler,
      labels = None, annotations = None, when_fn = None,
      reason = None, field = None, initial = False, deleted = False,
      requires_finalizer = False\<rparr>"

definition on_create :: ResourceHandler where
  "on_create = (plain_handler ''fn'' 1)\<lparr>reason := Some CREATE\<rparr>"

definition on_resume :: ResourceHandler where
  "on_resume = (plain_handler ''fn'' 1)\<lparr>initial := True\<rparr>"

definition on_create_other :: ResourceHandler where
  "on_create_other = (plain_handler ''fn'' 2)\<lparr>reason := Some CREATE\<rparr>"

definition on_delete :: ResourceHandler where
  "on_delete = (plain_handler ''cleanup'' 3)\<lparr>reason := Some DELETE, requires_finalizer := True\<rparr>"

definition on_spec_field :: ResourceHandler where
  "on_spec_field =
     (plain_handler ''spec_changed'' 4)\<lparr>field := Some [''spec''], requires_finalizer := True\<rparr>"

definition on_tasks :: ResourceHandler where
  "on_tasks = (plain_handler ''tasks'' 5)\<lparr>field := Some [''spec'', ''tasks'']\<rparr>"

definition on_task_name :: ResourceHandler where
  "on_task_name =
     (plain_handler ''name'' 6)\<lparr>field := Some [''spec'', ''tasks'', ''0'', ''name'']\<rparr>"

definition created_while_down :: Cause where
  "created_while_down =
     \<lparr>body_metadata = None, cause_reason = CREATE, cause_diff = None,
      cause_initial = True, cause_deleted = False\<rparr>"

definition created :: Cause where
  "created =
     \<lparr>body_metadata = None, cause_reason = CREATE,
      cause_diff = Some [(''add'', [''spec''], ''null'', ''{}'')],
      cause_initial = False, cause_deleted = False\<rparr>"

definition deleted_on_resume :: Cause where
  "deleted_on_resume =
     \<lparr>body_metadata = None, cause_reason = DELETE, cause_diff = None,
      cause_initial = True, cause_deleted = True\<rparr>"

text \<open>A user-supplied login handler and a fallback registered for every activity.\<close>

definition user_login :: ActivityHandler where
  "user_login =
     \<lparr>handler_id = ''user_login'', fn = 1, activity = Some AUTHENTICATION, fallback = False\<rparr>"

definition default_login :: ActivityHandler where
  "default_login =
     \<lparr>handler_id = ''default_login'', fn = 2, activity = None, fallback = True\<rparr>"



section \<open>Properties of deduplication\<close>

lemmas example_defs = plain_handler_def on_create_def on_resume_def on_create_other_def
  on_delete_def on_spec_field_def on_tasks_def on_task_name_def created_while_down_def
  created_def deleted_on_resume_def

lemmas match_defs = match_def matches_field_def matches_labels_def matches_annotations_def
  matches_filter_callback_def changing_yields_def changed_fields_of_def

lemma filter_deduplicated_from:
  "filter (\<lambda>h. fn h = f) (deduplicated_from seen hs) =
     (if f \<in> seen then []
      else (case find (\<lambda>h. fn h = f) hs of None \<Rightarrow> [] | Some h \<Rightarrow> [h]))"
  by (induction hs arbitrary: seen) auto

lemma filter_deduplicated:
  "filter (\<lambda>h. fn h = f) (deduplicated hs) =
     (case find (\<lambda>h. fn h = f) hs of None \<Rightarrow> [] | Some h \<Rightarrow> [h])"
  by (simp add: deduplicated_def filter_deduplicated_from)

lemma set_deduplicated_from: "set (deduplicated_from seen hs) \<subseteq> set hs"
  by (induction hs arbitrary: seen) auto

lemma set_deduplicated: "set (deduplicated hs) \<subseteq> set hs"
  by (simp add: deduplicated_def set_deduplicated_from)

lemma find_filter: "find P (filter Q xs) = find (\<lambda>x. Q x \<and> P x) xs"
  by (induction xs) auto

text \<open>
  C1. For every resource registry (changing, watching, spawning), every cause, every set
  of excluded ids and every callback \<open>f\<close>: the records of \<^verbatim>\<open>get_handlers\<close> whose
  callback is \<open>f\<close> are none when no registered record with that callback is selected
  for the cause, and otherwise exactly one, namely the first record in registration order
  that is selected and has that callback. The key is the identity of the callback; the
  handler id plays no part.
\<close>

theorem get_handlers_one_record_per_callback:
  "filter (\<lambda>h. fn h = f) (changing_get_handlers hs cause excluded) =
     (case find (\<lambda>h. changing_yields h cause excluded (changed_fields_of cause) \<and> fn h = f) hs of
        None \<Rightarrow> [] | Some h \<Rightarrow> [h])
   \<and> filter (\<lambda>h. fn h = f) (watching_get_handlers hs cause excluded) =
     (case find (\<lambda>h. (handler_id h \<notin> excluded \<and> match h cause {} True) \<and> fn h = f) hs of
        None \<Rightarrow> [] | Some h \<Rightarrow> [h])
   \<and> filter (\<lambda>h. fn h = f) (spawning_get_handlers hs cause excluded) =
     (case find (\<lambda>h. (handler_id h \<notin> excluded \<and> match h cause {} False) \<and> fn h = f) hs of
        None \<Rightarrow> [] | Some h \<Rightarrow> [h])"
  by (simp add: changing_get_handlers_def changing_iter_handlers_def watching_get_handlers_def
      watching_iter_handlers_def spawning_get_handlers_def spawning_iter_handlers_def
      filter_deduplicated find_filter)

text \<open>
  A resource created while the operator was down: the creation record and the resume
  record of the same function are both selected, and one is returned. The third record
  has the same handler id and another function, and is kept.
\<close>

theorem get_handlers_one_record_per_callback_witness:
  "filter (\<lambda>h. fn h = 1)
      (changing_get_handlers [on_create, on_resume, on_create_other] created_while_down {}) =
       [on_create]
   \<and> changing_iter_handlers [on_create, on_resume, on_create_other] created_while_down {} =
       [on_create, on_resume, on_create_other]
   \<and> changing_get_handlers [on_create, on_resume, on_create_other] created_while_down {} =
       [on_create, on_create_other]"
  using get_handlers_one_record_per_callback
    [of 1 "[on_create, on_resume, on_create_other]" created_while_down "{}"]
  by (simp add: example_defs match_defs changing_get_handlers_def changing_iter_handlers_def
      deduplicated_def)

section \<open>Properties of field matching\<close>

lemma take_eq_iff_prefix: "take (length f) c = f \<longleftrightarrow> prefix f c"
  by (metis append_take_drop_id prefix_def append_eq_conv_conj)

lemma eq_take_iff_prefix: "c = take (length c) f \<longleftrightarrow> prefix c f"
  using take_eq_iff_prefix [of c f] by auto

text \<open>
  C2. For a changing handler with a field path \<open>F\<close> and a set \<open>C\<close> of changed
  fields, with \<^verbatim>\<open>ignore_fields\<close> false, the field check passes iff some path in \<open>C\<close>
  is a prefix of \<open>F\<close> or has \<open>F\<close> as a prefix, segment by segment. A handler has a
  field path when \<^verbatim>\<open>handler.field\<close> is a non-empty tuple: the code tests
  \<^verbatim>\<open>not handler.field\<close>, so \<^verbatim>\<open>None\<close> and the empty tuple both mean no field scope.
\<close>

theorem matches_field_bidirectional_prefix:
  assumes "handler_class h = ResourceChangingHandler" and "field h = Some F" and "F \<noteq> []"
  shows "matches_field h C False \<longleftrightarrow> (\<exists>c \<in> C. prefix c F \<or> prefix F c)"
  using assms by (auto simp: matches_field_def take_eq_iff_prefix eq_take_iff_prefix)

text \<open>
  The two directions named by the specification, and an unrelated sibling path.
\<close>

theorem matches_field_bidirectional_prefix_witness:
  "matches_field on_tasks {[''spec'', ''tasks'', ''0'', ''name'']} False
   \<and> matches_field on_task_name {[''spec'', ''tasks'']} False
   \<and> \<not> matches_field on_tasks {[''spec'', ''replicas'']} False"
  using matches_field_bidirectional_prefix
      [of on_tasks "[''spec'', ''tasks'']" "{[''spec'', ''tasks'', ''0'', ''name'']}"]
    matches_field_bidirectional_prefix
      [of on_task_name "[''spec'', ''tasks'', ''0'', ''name'']" "{[''spec'', ''tasks'']}"]
    matches_field_bidirectional_prefix
      [of on_tasks "[''spec'', ''tasks'']" "{[''spec'', ''replicas'']}"]
  by (simp add: example_defs)

section \<open>Properties of the activity registry\<close>

text \<open>
  C3. The claim is that a fallback handler is returned only when no regular handler
  matched. The condition of the first loop, \<^verbatim>\<open>activity is None or (activity == requested
  and not _fallback)\<close>, lets a fallback handler registered for every activity through
  together with the regular ones: with a user handler for \<open>AUTHENTICATION\<close> and such a
  fallback, \<^verbatim>\<open>get_handlers\<close> returns both.
\<close>

theorem activity_fallback_returned_with_regular:
  "activity_get_handlers [user_login, default_login] AUTHENTICATION = [user_login, default_login]"
  by (simp add: activity_get_handlers_def activity_iter_handlers_def deduplicated_def
      user_login_def default_login_def)

section \<open>Properties of finalizer detection\<close>


lemma changing_requires_finalizer_iff:
  "changing_requires_finalizer hs cause excluded \<longleftrightarrow>
     (\<exists>h \<in> set hs. handler_id h \<notin> excluded \<and> requires_finalizer h \<and> match h cause {} False)"
  by (induction hs) auto



text \<open>
  C9. As stated, the property fails for a handler with a field scope: the changed-fields
  set passed to the match is empty, so such a handler never matches, although its label,
  annotation and callback filters pass.
\<close>

theorem requires_finalizer_field_scoped_counterexample:
  "handler_id on_spec_field \<notin> {} \<and> requires_finalizer on_spec_field
   \<and> matches_labels on_spec_field created \<and> matches_annotations on_spec_field created
   \<and> matches_filter_callback on_spec_field created
   \<and> \<not> changing_requires_finalizer [on_spec_field] created {}"
  by (simp add: example_defs match_defs)

text \<open>
  C9, amended. \<^verbatim>\<open>ResourceChangingRegistry.requires_finalizer\<close> applies none of the
  gating by reason, \<^verbatim>\<open>initial\<close> or \<^verbatim>\<open>deleted\<close> and does not read the diff: for every
  cause, a registered handler that is not excluded, declares \<^verbatim>\<open>requires_finalizer\<close>,
  has no field scope, and whose label, annotation and callback filters pass makes it
  return true, whatever the reason and the \<^verbatim>\<open>initial\<close> mark of the handler and of the
  cause.
\<close>

theorem changing_requires_finalizer_ungated:
  assumes "h \<in> set hs" and "handler_id h \<notin> excluded" and "requires_finalizer h"
    and "field h = None \<or> field h = Some []"
    and "matches_labels h cause" and "matches_annotations h cause"
    and "matches_filter_callback h cause"
  shows "changing_requires_finalizer hs cause excluded"
proof -
  have "matches_field h {} False"
    using assms(4) by (auto simp: matches_field_def)
  then have "match h cause {} False"
    using assms by (simp add: match_def)
  then show ?thesis
    using assms changing_requires_finalizer_iff by blast
qed

text \<open>
  A deletion handler against a creation cause, and a resume handler against a cause that
  is not initial: neither is returned by \<^verbatim>\<open>get_handlers\<close>, both require the finalizer.
\<close>

theorem changing_requires_finalizer_ungated_witness:
  "changing_requires_finalizer [on_delete] created {}
   \<and> changing_get_handlers [on_delete] created {} = []
   \<and> changing_requires_finalizer [on_resume\<lparr>requires_finalizer := True\<rparr>] created {}
   \<and> changing_get_handlers [on_resume\<lparr>requires_finalizer := True\<rparr>] created {} = []"
  using changing_requires_finalizer_ungated [of on_delete "[on_delete]" "{}" created]
    changing_requires_finalizer_ungated
      [of "on_resume\<lparr>requires_finalizer := True\<rparr>"
          "[on_resume\<lparr>requires_finalizer := True\<rparr>]" "{}" created]
  by (simp add: example_defs match_defs changing_get_handlers_def changing_iter_handlers_def
      deduplicated_def)

section \<open>Properties of the changing registry\<close>

text \<open>
  C5. For every changing registry, every set of excluded ids and every cause with
  \<^verbatim>\<open>deleted\<close> set, a handler marked \<^verbatim>\<open>initial\<close> whose own \<^verbatim>\<open>deleted\<close> flag is not
  set is not among the handlers \<^verbatim>\<open>get_handlers\<close> returns; nothing is assumed about the
  reason, the diff or the \<^verbatim>\<open>initial\<close> flag of the cause.
\<close>

theorem initial_handler_never_on_deletion:
  assumes "cause_deleted cause" and "initial h" and "\<not> deleted h"
  shows "h \<notin> set (changing_get_handlers hs cause excluded)"
proof
  assume "h \<in> set (changing_get_handlers hs cause excluded)"
  then have "h \<in> set (changing_iter_handlers hs cause excluded)"
    using set_deduplicated unfolding changing_get_handlers_def by blast
  then have "changing_yields h cause excluded (changed_fields_of cause)"
    by (simp add: changing_iter_handlers_def)
  with assms show False
    by (simp add: changing_yields_def split: if_splits)
qed

theorem initial_handler_never_on_deletion_witness:
  "on_resume \<notin> set (changing_get_handlers [on_resume, on_delete] deleted_on_resume {})
   \<and> on_delete \<in> set (changing_get_handlers [on_resume, on_delete] deleted_on_resume {})"
  using initial_handler_never_on_deletion
    [of deleted_on_resume on_resume "[on_resume, on_delete]" "{}"]
  by (simp add: example_defs match_defs changing_get_handlers_def changing_iter_handlers_def
      deduplicated_def)

section \<open>Properties of identifier derivation\<close>

lemma get_callable_id_innermost: "get_callable_id c = get_callable_id (innermost c)"
  by (induction c) auto

lemma get_callable_id_fails_iff: "(\<exists>e. get_callable_id c = Inl e) \<longleftrightarrow> \<not> derivable c"
  unfolding derivable_def by (induction c) auto

lemma generate_id_fails_iff:
  "(\<exists>e. generate_id c i p s = Inl e) \<longleftrightarrow> (i = None \<and> (\<exists>e. get_callable_id c = Inl e))"
  by (auto simp: generate_id_def Let_def split: sum.splits option.splits)

text \<open>
  C8. \<^verbatim>\<open>generate_id\<close> raises exactly when no explicit id is given and no identity can
  be derived from the callable, that is, when what remains after removing the partial and
  wrapper layers is not a function, a method or a lambda (in particular when it is
  \<^verbatim>\<open>None\<close>). Otherwise it returns an id: the explicit id when there is one, else the
  qualified name of the innermost function or method, else for a lambda the text
  \<^verbatim>\<open>lambda:<path>:<line>\<close>.
\<close>

theorem generate_id_fails_iff_nothing_derivable:
  "((\<exists>e. generate_id c i p s = Inl e) \<longleftrightarrow> (i = None \<and> \<not> derivable c))
   \<and> generate_id c (Some x) None None = Inr x
   \<and> (innermost c = Function q \<or> innermost c = Method q \<longrightarrow>
        generate_id c None None None = Inr q)
   \<and> (innermost c = Lambda path line \<longrightarrow>
        generate_id c None None None = Inr (''lambda:'' @ path @ '':'' @ str_of_nat line))"
proof -
  have fails: "(\<exists>e. generate_id c i p s = Inl e) \<longleftrightarrow> (i = None \<and> \<not> derivable c)"
    by (simp add: generate_id_fails_iff get_callable_id_fails_iff)
  have explicit: "generate_id c (Some x) None None = Inr x"
    by (simp add: generate_id_def)
  have named: "innermost c = Function q \<or> innermost c = Method q \<longrightarrow>
        generate_id c None None None = Inr q"
    using get_callable_id_innermost [of c] by (auto simp: generate_id_def)
  have anonymous: "innermost c = Lambda path line \<longrightarrow>
        generate_id c None None None = Inr (''lambda:'' @ path @ '':'' @ str_of_nat line)"
    using get_callable_id_innermost [of c] by (auto simp: generate_id_def)
  show ?thesis using fails explicit named anonymous by blast
qed

theorem generate_id_fails_iff_nothing_derivable_witness:
  "(\<exists>e. generate_id NoneValue None None None = Inl e)
   \<and> (\<exists>e. generate_id (Partial OtherObject) None None None = Inl e)
   \<and> generate_id NoneValue (Some ''explicit'') None None = Inr ''explicit''
   \<and> generate_id (Partial (Wrapped (Function ''Cls.create_fn''))) None None None =
       Inr ''Cls.create_fn''
   \<and> generate_id (Lambda ''/app/handlers.py'' 42) None None None =
       Inr ''lambda:/app/handlers.py:42''"
  using generate_id_fails_iff_nothing_derivable [of NoneValue None None None]
    generate_id_fails_iff_nothing_derivable [of "Partial OtherObject" None None None]
    generate_id_fails_iff_nothing_derivable [of NoneValue None None None "''explicit''"]
    generate_id_fails_iff_nothing_derivable
      [of "Partial (Wrapped (Function ''Cls.create_fn''))" None None None _ "''Cls.create_fn''"]
    generate_id_fails_iff_nothing_derivable
      [of "Lambda ''/app/handlers.py'' 42" None None None _ _ "''/app/handlers.py''" 42]
  by (simp add: derivable_def digit_char_def str_of_nat.simps)



section \<open>Properties of event posting\<close>






end
